theory Spec2Isabelle
  imports Complex_Main "HOL-Library.Word"
begin

section \<open>JavaScript values used by the models\<close>

text \<open>
  A JavaScript string is a sequence of UTF-16 code units: \<open>s.length\<close> counts code units
  and \<open>s.substring(0, n)\<close> keeps the first \<open>n\<close> of them. A string literal of the
  source is written \<open>js_lit ''...''\<close>.

  Numbers: array lengths and counters of array elements are naturals; the counters a
  caller can add any number to are integers; a \<open>Date\<close> is its number of milliseconds
  since the epoch, an integer; a quotient of numbers is an exact rational (the rounding
  of IEEE doubles is not part of the model).
\<close>

type_synonym code_unit = "16 word"
type_synonym js_string = "code_unit list"

definition js_lit :: "string \<Rightarrow> js_string" where
  "js_lit s = map of_char s"

text \<open>\<open>String.prototype.trim\<close>: the code units of WhiteSpace and LineTerminator.\<close>

definition js_whitespace :: "code_unit \<Rightarrow> bool" where
  "js_whitespace u =
     (u \<in> set [0x09, 0x0A, 0x0B, 0x0C, 0x0D, 0x20, 0xA0, 0x1680,
                0x2000, 0x2001, 0x2002, 0x2003, 0x2004, 0x2005, 0x2006, 0x2007,
                0x2008, 0x2009, 0x200A, 0x2028, 0x2029, 0x202F, 0x205F, 0x3000, 0xFEFF])"

definition trim :: "js_string \<Rightarrow> js_string" where
  "trim s = rev (dropWhile js_whitespace (rev (dropWhile js_whitespace s)))"

text \<open>
  \<open>Array.prototype.slice(start)\<close> with an integer \<open>start\<close> and no \<open>end\<close>: a negative
  \<open>start\<close> counts from the end (and stops at the first element), a non-negative one is
  capped at the length; the result runs from there to the end.
\<close>

definition js_slice :: "'a list \<Rightarrow> int \<Rightarrow> 'a list" where
  "js_slice xs start =
     (let len = int (length xs);
          k = (if start < 0 then max (len + start) 0 else min start len)
      in drop (nat k) xs)"

section \<open>models/Conversation.js\<close>

subsection \<open>The message and conversation schemas\<close>

text \<open>
  The schema's \<open>enum\<close> fields are datatypes and its \<open>required\<close> fields are always
  present: documents are the ones the schema admits. The \<open>metadata\<close> of a message is
  advisory, no method reads it, and it is left out, as are \<open>_id\<close> and the version key.
  The \<open>updatedAt\<close> of a conversation, which the \<open>timestamps\<close> option rewrites on a save,
  is left out as well: nothing below speaks of the rest of a conversation after a method.
\<close>

datatype message_type = User | Ai

datatype content_type = Text | Voice | Image | File

datatype ai_model = Local | Hybrid | Cloud

datatype conversation_status = Active | Archived | Deleted

record message =
  m_type :: message_type
  m_content :: js_string
  m_contentType :: content_type
  m_timestamp :: int

record conversation_settings =
  cs_voiceEnabled :: bool
  cs_language :: js_string
  cs_contextWindow :: int

record conversation_stats =
  totalMessages :: nat
  userMessages :: nat
  aiMessages :: nat
  voiceMessages :: nat
  duration :: nat
  tokensUsed :: nat

text \<open>
  \<open>c_messagesModified\<close> is what \<open>this.isModified('messages')\<close> reads: the document's
  change tracking for the \<open>messages\<close> path, set by a push and cleared by a save.
\<close>

record conversation =
  c_userId :: js_string
  c_title :: "js_string option"
  c_messages :: "message list"
  c_summary :: "js_string option"
  c_tags :: "js_string list"
  c_aiModel :: ai_model
  c_settings :: conversation_settings
  c_stats :: conversation_stats
  c_status :: conversation_status
  c_isFavorite :: bool
  c_createdAt :: int
  c_lastMessageAt :: int
  c_messagesModified :: bool

text \<open>
  What a caller hands to \<open>addMessage\<close>. \<open>contentType\<close> and \<open>timestamp\<close> may be absent,
  and the schema's defaults (\<open>'text'\<close>, \<open>Date.now\<close>) fill them when the object is cast to
  a message; \<open>content\<close> is trimmed by its setter.
\<close>

record message_data =
  md_type :: message_type
  md_content :: js_string
  md_contentType :: "content_type option"
  md_timestamp :: "int option"

definition castMessage :: "message_data \<Rightarrow> int \<Rightarrow> message" where
  "castMessage md now =
     \<lparr> m_type = md_type md,
       m_content = trim (md_content md),
       m_contentType = (case md_contentType md of None \<Rightarrow> Text | Some t \<Rightarrow> t),
       m_timestamp = (case md_timestamp md of None \<Rightarrow> now | Some t \<Rightarrow> t) \<rparr>"

text \<open>
  \<open>new Conversation({ userId, title, aiModel })\<close>: every other field takes the schema's
  default. \<open>createdAt\<close> and \<open>lastMessageAt\<close> each have the default \<open>Date.now\<close>, evaluated
  for the field: the clock is read once for each, \<open>now_created\<close> and \<open>now_last\<close>.
\<close>

definition newConversation ::
    "js_string \<Rightarrow> js_string option \<Rightarrow> ai_model option \<Rightarrow> int \<Rightarrow> int \<Rightarrow> conversation" where
  "newConversation uid title_opt model_opt now_created now_last =
     \<lparr> c_userId = uid,
       c_title = map_option trim title_opt,
       c_messages = [],
       c_summary = None,
       c_tags = [],
       c_aiModel = (case model_opt of None \<Rightarrow> Local | Some a \<Rightarrow> a),
       c_settings = \<lparr> cs_voiceEnabled = True, cs_language = js_lit ''en'',
                      cs_contextWindow = 10 \<rparr>,
       c_stats = \<lparr> totalMessages = 0, userMessages = 0, aiMessages = 0,
                   voiceMessages = 0, duration = 0, tokensUsed = 0 \<rparr>,
       c_status = Active,
       c_isFavorite = False,
       c_createdAt = now_created,
       c_lastMessageAt = now_last,
       c_messagesModified = False \<rparr>"

subsection \<open>The pre-save hook and the methods\<close>

text \<open>\<open>conversationSchema.pre('save', ...)\<close>.\<close>

definition pre_save :: "conversation \<Rightarrow> conversation" where
  "pre_save c =
     (if c_messagesModified c then
        (let c1 = c\<lparr> c_stats := (c_stats c)
                     \<lparr> totalMessages := length (c_messages c),
                       userMessages := length (filter (\<lambda>m. m_type m = User) (c_messages c)),
                       aiMessages := length (filter (\<lambda>m. m_type m = Ai) (c_messages c)),
                       voiceMessages :=
                         length (filter (\<lambda>m. m_contentType m = Voice) (c_messages c)) \<rparr> \<rparr>
         in if length (c_messages c1) > 0
            then c1\<lparr> c_lastMessageAt :=
                       m_timestamp (c_messages c1 ! (length (c_messages c1) - 1)) \<rparr>
            else c1)
      else c)"

text \<open>
  \<open>this.save()\<close>: the hook runs, the document is written, and its change tracking
  starts afresh. The model follows a save that the store accepts.
\<close>

definition save :: "conversation \<Rightarrow> conversation" where
  "save c = (pre_save c)\<lparr> c_messagesModified := False \<rparr>"

text \<open>
  \<open>addMessage(messageData)\<close>. The clock is read twice: \<open>now_push\<close> when the pushed
  object is cast (the default of \<open>timestamp\<close>), \<open>now_set\<close> by \<open>new Date()\<close>.
\<close>

definition addMessage :: "conversation \<Rightarrow> message_data \<Rightarrow> int \<Rightarrow> int \<Rightarrow> conversation" where
  "addMessage c messageData now_push now_set =
     save (c\<lparr> c_messages := c_messages c @ [castMessage messageData now_push],
              c_messagesModified := True,
              c_lastMessageAt := now_set \<rparr>)"

text \<open>
  \<open>getContextMessages(limit = 10)\<close>: an absent argument is \<open>None\<close> and takes the default.
\<close>

definition getContextMessages :: "conversation \<Rightarrow> int option \<Rightarrow> message list" where
  "getContextMessages c limit_opt =
     (let limit = (case limit_opt of None \<Rightarrow> 10 | Some l \<Rightarrow> l)
      in js_slice (c_messages c) (- limit))"

text \<open>
  \<open>generateTitle()\<close>: \<open>Array.prototype.find\<close> gives the first element that passes the
  test, \<open>substring(0, 50)\<close> the first 50 code units.
\<close>

definition generateTitle :: "conversation \<Rightarrow> js_string" where
  "generateTitle c =
     (case find (\<lambda>m. m_type m = User) (c_messages c) of
        Some firstUserMessage \<Rightarrow>
          (let content = m_content firstUserMessage
           in if length content > 50 then take 50 content @ js_lit ''...'' else content)
      | None \<Rightarrow> js_lit ''New Conversation'')"

text \<open>\<open>calculateDuration()\<close>: the difference of two dates is in milliseconds.\<close>

definition calculateDuration :: "conversation \<Rightarrow> rat" where
  "calculateDuration c =
     (if length (c_messages c) < 2 then 0
      else (let firstMessage = c_messages c ! 0;
                lastMessage = c_messages c ! (length (c_messages c) - 1)
            in (of_int (m_timestamp lastMessage) - of_int (m_timestamp firstMessage)) / 1000))"

text \<open>\<open>archive()\<close>, \<open>delete()\<close>, \<open>restore()\<close> and \<open>toggleFavorite()\<close>.\<close>

definition archive :: "conversation \<Rightarrow> conversation" where
  "archive c = save (c\<lparr> c_status := Archived \<rparr>)"

definition delete :: "conversation \<Rightarrow> conversation" where
  "delete c = save (c\<lparr> c_status := Deleted \<rparr>)"

definition restore :: "conversation \<Rightarrow> conversation" where
  "restore c = save (c\<lparr> c_status := Active \<rparr>)"

definition toggleFavorite :: "conversation \<Rightarrow> conversation" where
  "toggleFavorite c = save (c\<lparr> c_isFavorite := \<not> c_isFavorite c \<rparr>)"

subsection \<open>Sequences of appends\<close>

text \<open>
  One append is the message data and the two clock readings of that call.
  \<open>appendTrace\<close> lists the conversation before the first append and after each one;
  \<open>stampOf\<close> is the timestamp the appended message gets.
\<close>

type_synonym append_step = "message_data \<times> int \<times> int"

fun appendTrace :: "conversation \<Rightarrow> append_step list \<Rightarrow> conversation list" where
  "appendTrace c [] = [c]"
| "appendTrace c ((messageData, now_push, now_set) # steps) =
     c # appendTrace (addMessage c messageData now_push now_set) steps"

fun stampOf :: "append_step \<Rightarrow> int" where
  "stampOf (messageData, now_push, now_set) = m_timestamp (castMessage messageData now_push)"

section \<open>models/User.js\<close>

datatype theme = Light | Dark | Auto

record user_preferences =
  p_theme :: theme
  p_voiceEnabled :: bool
  p_voiceSpeed :: rat
  p_voiceVolume :: rat
  p_aiModel :: ai_model
  p_offlineMode :: bool
  p_language :: js_string

record user_stats =
  conversations :: int
  messages :: int
  voiceInteractions :: int
  totalUsageTime :: int

text \<open>
  A user document as loaded from the store, with its change tracking:
  \<open>u_modifiedPaths\<close> holds the paths assigned since the last save, and
  \<open>this.isModified(path)\<close> reads it. A user as stored holds the hash in \<open>u_password\<close> and
  has no modified path.
\<close>

record user =
  u_username :: js_string
  u_email :: js_string
  u_password :: js_string
  u_avatar :: "js_string option"
  u_preferences :: user_preferences
  u_stats :: user_stats
  u_isActive :: bool
  u_lastActive :: int
  u_createdAt :: int
  u_updatedAt :: int
  u_modifiedPaths :: "js_string set"

definition isModified :: "user \<Rightarrow> js_string \<Rightarrow> bool" where
  "isModified u path = (path \<in> u_modifiedPaths u)"

text \<open>
  An assignment to a path marks it modified when the value assigned differs from the
  one the path had.
\<close>

definition markModified :: "js_string \<Rightarrow> bool \<Rightarrow> user \<Rightarrow> user" where
  "markModified path changed u =
     (if changed then u\<lparr> u_modifiedPaths := insert path (u_modifiedPaths u) \<rparr> else u)"

text \<open>An \<open>Error\<close> object: its class is \<open>Error\<close>, its content the message.\<close>

datatype js_error = Error js_string

text \<open>
  \<open>userSchema.pre('save', ...)\<close>. The salted hash of \<open>bcrypt\<close> is the parameter \<open>hash\<close>,
  its comparison the parameter \<open>compare\<close> (candidate first, stored hash second).
\<close>

definition pre_save_user :: "(js_string \<Rightarrow> js_string) \<Rightarrow> user \<Rightarrow> user" where
  "pre_save_user hash u =
     (if \<not> isModified u (js_lit ''password'') then u
      else u\<lparr> u_password := hash (u_password u) \<rparr>)"

text \<open>
  \<open>this.save()\<close> at the time \<open>now\<close>: the hook runs; under \<open>timestamps: true\<close> a save of a
  document with a modified path writes \<open>now\<close> into \<open>updatedAt\<close>; the document is written
  and its change tracking starts afresh.
\<close>

definition save_user :: "(js_string \<Rightarrow> js_string) \<Rightarrow> user \<Rightarrow> int \<Rightarrow> user" where
  "save_user hash u now =
     (let u1 = pre_save_user hash u;
          u2 = (if u_modifiedPaths u1 \<noteq> {} then u1\<lparr> u_updatedAt := now \<rparr> else u1)
      in u2\<lparr> u_modifiedPaths := {} \<rparr>)"

definition comparePassword :: "(js_string \<Rightarrow> js_string \<Rightarrow> bool) \<Rightarrow> user \<Rightarrow> js_string \<Rightarrow> bool" where
  "comparePassword compare u candidatePassword = compare candidatePassword (u_password u)"

text \<open>
  \<open>this.findOne({ email })\<close> over the collection \<open>users\<close>. The value in the filter is cast
  by the schema of \<open>email\<close>, \<open>lowercase: true, trim: true\<close>, before it is compared, as a
  stored email was when it was set; the result is the first user with that email.
  \<open>String.prototype.toLowerCase\<close> is the parameter \<open>toLowerCase\<close> (it takes no code unit
  to or from white space, so the order of the two setters does not matter).
\<close>

definition castEmail :: "(js_string \<Rightarrow> js_string) \<Rightarrow> js_string \<Rightarrow> js_string" where
  "castEmail toLowerCase email = trim (toLowerCase email)"

definition findOne :: "(js_string \<Rightarrow> js_string) \<Rightarrow> user list \<Rightarrow> js_string \<Rightarrow> user option" where
  "findOne toLowerCase users email =
     find (\<lambda>u. u_email u = castEmail toLowerCase email) users"

text \<open>\<open>findByCredentials(email, password)\<close>. A \<open>throw\<close> is \<open>Inl\<close>.\<close>

definition findByCredentials ::
    "(js_string \<Rightarrow> js_string \<Rightarrow> bool) \<Rightarrow> (js_string \<Rightarrow> js_string) \<Rightarrow> user list \<Rightarrow>
       js_string \<Rightarrow> js_string \<Rightarrow> js_error + user" where
  "findByCredentials compare toLowerCase users email password =
     (case findOne toLowerCase users email of
        None \<Rightarrow> Inl (Error (js_lit ''Invalid login credentials''))
      | Some u \<Rightarrow>
          (let isMatch = comparePassword compare u password
           in if \<not> isMatch then Inl (Error (js_lit ''Invalid login credentials''))
              else Inr u))"

text \<open>
  \<open>updateLastActive()\<close>: \<open>new Date()\<close> reads the clock at \<open>now\<close>, the save happens at
  \<open>now_save\<close>.
\<close>

definition updateLastActive :: "(js_string \<Rightarrow> js_string) \<Rightarrow> user \<Rightarrow> int \<Rightarrow> int \<Rightarrow> user" where
  "updateLastActive hash u now now_save =
     save_user hash
       (markModified (js_lit ''lastActive'') (now \<noteq> u_lastActive u) (u\<lparr> u_lastActive := now \<rparr>))
       now_save"

text \<open>
  \<open>updateStats(type, increment = 1)\<close>, saved at the time \<open>now\<close>: the \<open>switch\<close> has no
  \<open>default\<close> branch, so any other \<open>type\<close> falls through to the save.
\<close>

definition updateStats ::
    "(js_string \<Rightarrow> js_string) \<Rightarrow> user \<Rightarrow> js_string \<Rightarrow> int option \<Rightarrow> int \<Rightarrow> user" where
  "updateStats hash u type increment_opt now =
     (let increment = (case increment_opt of None \<Rightarrow> 1 | Some d \<Rightarrow> d);
          st = u_stats u;
          u1 = (if type = js_lit ''conversation''
                  then markModified (js_lit ''stats.conversations'') (increment \<noteq> 0)
                         (u\<lparr> u_stats := st\<lparr> conversations := conversations st + increment \<rparr> \<rparr>)
                else if type = js_lit ''message''
                  then markModified (js_lit ''stats.messages'') (increment \<noteq> 0)
                         (u\<lparr> u_stats := st\<lparr> messages := messages st + increment \<rparr> \<rparr>)
                else if type = js_lit ''voice''
                  then markModified (js_lit ''stats.voiceInteractions'') (increment \<noteq> 0)
                         (u\<lparr> u_stats := st
                               \<lparr> voiceInteractions := voiceInteractions st + increment \<rparr> \<rparr>)
                else if type = js_lit ''usage''
                  then markModified (js_lit ''stats.totalUsageTime'') (increment \<noteq> 0)
                         (u\<lparr> u_stats := st
                               \<lparr> totalUsageTime := totalUsageTime st + increment \<rparr> \<rparr>)
                else u)
      in save_user hash u1 now)"

section \<open>Example documents\<close>

text \<open>
  The scenario of the specification: a conversation of \<open>alice\<close>, the user message
  \<open>Hello\<close> and, ten seconds later, the reply \<open>Hi!\<close>.
\<close>

definition hello :: message_data where
  "hello = \<lparr> md_type = User, md_content = js_lit ''Hello'',
             md_contentType = None, md_timestamp = None \<rparr>"

definition hi :: message_data where
  "hi = \<lparr> md_type = Ai, md_content = js_lit ''Hi!'',
          md_contentType = None, md_timestamp = None \<rparr>"

definition alice_conversation :: conversation where
  "alice_conversation = newConversation (js_lit ''alice'') None None 1000 1000"

definition alice_steps :: "append_step list" where
  "alice_steps = [(hello, 2000, 2001), (hi, 12000, 12001)]"

definition alice_after_hello :: conversation where
  "alice_after_hello = addMessage alice_conversation hello 2000 2001"

definition alice_after_hi :: conversation where
  "alice_after_hi = addMessage alice_after_hello hi 12000 12001"

text \<open>Two messages whose data carry their own timestamps, the second one earlier.\<close>

definition dated_5000 :: message_data where
  "dated_5000 = \<lparr> md_type = User, md_content = js_lit ''first'',
                  md_contentType = Some Voice, md_timestamp = Some 5000 \<rparr>"

definition dated_4000 :: message_data where
  "dated_4000 = \<lparr> md_type = Ai, md_content = js_lit ''second'',
                  md_contentType = None, md_timestamp = Some 4000 \<rparr>"

text \<open>A reply first, then a user message of 80 code units.\<close>

definition long_question :: message_data where
  "long_question = \<lparr> md_type = User, md_content = replicate 80 0x61,
                     md_contentType = None, md_timestamp = None \<rparr>"

definition long_conversation :: conversation where
  "long_conversation =
     addMessage (addMessage alice_conversation hi 2000 2001) long_question 3000 3001"

text \<open>
  Stand-ins for the salted hash, its comparison and \<open>toLowerCase\<close> (on the letters A to
  Z), a stored user, and the same user after \<open>user.password = 'secret2'\<close>, not yet saved.
\<close>

definition stub_hash :: "js_string \<Rightarrow> js_string" where
  "stub_hash p = js_lit ''$2a$12$'' @ p"

definition stub_compare :: "js_string \<Rightarrow> js_string \<Rightarrow> bool" where
  "stub_compare candidate stored = (stub_hash candidate = stored)"

definition ascii_lower :: "js_string \<Rightarrow> js_string" where
  "ascii_lower s = map (\<lambda>u. if 0x41 \<le> u \<and> u \<le> 0x5A then u + 0x20 else u) s"

definition alice :: user where
  "alice = \<lparr> u_username = js_lit ''alice'',
             u_email = js_lit ''alice@example.com'',
             u_password = stub_hash (js_lit ''secret1''),
             u_avatar = None,
             u_preferences = \<lparr> p_theme = Dark, p_voiceEnabled = True, p_voiceSpeed = 1,
                                p_voiceVolume = 4 / 5, p_aiModel = Local,
                                p_offlineMode = True, p_language = js_lit ''en'' \<rparr>,
             u_stats = \<lparr> conversations = 0, messages = 0, voiceInteractions = 0,
                         totalUsageTime = 0 \<rparr>,
             u_isActive = True,
             u_lastActive = 1000,
             u_createdAt = 1000,
             u_updatedAt = 1000,
             u_modifiedPaths = {} \<rparr>"


text \<open>A new conversation whose two defaults fell into different milliseconds.\<close>

definition late_default_conversation :: conversation where
  "late_default_conversation = newConversation (js_lit ''alice'') None None 1000 1001"

text \<open>A conversation that holds a reply only, and the one after the message dated 5000.\<close>

definition reply_only :: conversation where
  "reply_only = addMessage alice_conversation hi 2000 2001"

definition alice_after_5000 :: conversation where
  "alice_after_5000 = addMessage alice_conversation dated_5000 6000 6001"

section \<open>What a method leaves in the document\<close>

lemma addMessage_messages:
  "c_messages (addMessage c md t1 t2) = c_messages c @ [castMessage md t1]"
  by (simp add: addMessage_def save_def pre_save_def Let_def)

lemma addMessage_stats:
  "c_stats (addMessage c md t1 t2) = (c_stats c)
     \<lparr> totalMessages := length (c_messages c @ [castMessage md t1]),
       userMessages :=
         length (filter (\<lambda>m. m_type m = User) (c_messages c @ [castMessage md t1])),
       aiMessages :=
         length (filter (\<lambda>m. m_type m = Ai) (c_messages c @ [castMessage md t1])),
       voiceMessages :=
         length (filter (\<lambda>m. m_contentType m = Voice) (c_messages c @ [castMessage md t1])) \<rparr>"
  by (simp add: addMessage_def save_def pre_save_def Let_def)

lemma addMessage_lastMessageAt:
  "c_lastMessageAt (addMessage c md t1 t2) = m_timestamp (castMessage md t1)"
  by (simp add: addMessage_def save_def pre_save_def Let_def)

lemma addMessage_createdAt:
  "c_createdAt (addMessage c md t1 t2) = c_createdAt c"
  by (simp add: addMessage_def save_def pre_save_def Let_def)

text \<open>Every message is a user's or the assistant's.\<close>

lemma type_partition:
  "length (filter (\<lambda>m. m_type m = User) ms) + length (filter (\<lambda>m. m_type m = Ai) ms) =
   length ms"
proof (induction ms)
  case Nil
  show ?case by simp
next
  case (Cons m ms)
  then show ?case by (cases "m_type m") simp_all
qed

text \<open>Past its head, a trace holds results of \<open>addMessage\<close> only.\<close>

lemma appendTrace_head:
  "appendTrace c steps = c # tl (appendTrace c steps)"
  by (cases steps) auto

lemma appendTrace_later:
  "c' \<in> set (tl (appendTrace c steps)) \<Longrightarrow> \<exists>c0 md t1 t2. c' = addMessage c0 md t1 t2"
proof (induction steps arbitrary: c)
  case Nil
  then show ?case by simp
next
  case (Cons s steps)
  obtain md t1 t2 where s: "s = (md, t1, t2)" by (cases s)
  let ?c1 = "addMessage c md t1 t2"
  from Cons.prems s have "c' \<in> set (appendTrace ?c1 steps)" by simp
  then have "c' = ?c1 \<or> c' \<in> set (tl (appendTrace ?c1 steps))"
    using appendTrace_head [of ?c1 steps] by (metis set_ConsD)
  then show ?case using Cons.IH by blast
qed

lemma appendTrace_lastMessageAt:
  "map c_lastMessageAt (appendTrace c steps) = c_lastMessageAt c # map stampOf steps"
proof (induction steps arbitrary: c)
  case Nil
  show ?case by simp
next
  case (Cons s steps)
  obtain md t1 t2 where s: "s = (md, t1, t2)" by (cases s)
  show ?case by (simp add: s Cons.IH addMessage_lastMessageAt)
qed

subsection \<open>The example documents, evaluated\<close>

lemma alice_conversation_messages: "c_messages alice_conversation = []"
  by (simp add: alice_conversation_def newConversation_def)

lemma alice_after_hello_messages:
  "c_messages alice_after_hello = [castMessage hello 2000]"
  by (simp add: alice_after_hello_def addMessage_messages alice_conversation_messages)

lemma alice_after_hi_messages:
  "c_messages alice_after_hi = [castMessage hello 2000, castMessage hi 12000]"
  by (simp add: alice_after_hi_def addMessage_messages alice_after_hello_messages)

lemma reply_only_messages: "c_messages reply_only = [castMessage hi 2000]"
  by (simp add: reply_only_def addMessage_messages alice_conversation_messages)

lemma long_conversation_messages:
  "c_messages long_conversation = [castMessage hi 2000, castMessage long_question 3000]"
  by (simp add: long_conversation_def addMessage_messages alice_conversation_messages)

lemma alice_trace:
  "appendTrace alice_conversation alice_steps =
     [alice_conversation, alice_after_hello, alice_after_hi]"
  by (simp add: alice_steps_def alice_after_hello_def alice_after_hi_def)

lemma cast_hello:
  "m_type (castMessage hello t) = User \<and> m_content (castMessage hello t) = js_lit ''Hello'' \<and>
   m_contentType (castMessage hello t) = Text \<and> m_timestamp (castMessage hello t) = t"
  by (simp add: castMessage_def hello_def trim_def js_whitespace_def js_lit_def)

lemma cast_hi:
  "m_type (castMessage hi t) = Ai \<and> m_content (castMessage hi t) = js_lit ''Hi!'' \<and>
   m_contentType (castMessage hi t) = Text \<and> m_timestamp (castMessage hi t) = t"
  by (simp add: castMessage_def hi_def trim_def js_whitespace_def js_lit_def)

lemma cast_long_question:
  "m_type (castMessage long_question t) = User \<and>
   m_content (castMessage long_question t) = replicate 80 0x61"
  by (simp add: castMessage_def long_question_def trim_def js_whitespace_def)

section \<open>Conversation: derived statistics and the last-message time\<close>

text \<open>
  C1. Take any conversation and any sequence of appends. In every conversation the
  sequence produces (after each append is saved), \<open>stats.totalMessages\<close> is the length of
  \<open>messages\<close>, \<open>stats.userMessages\<close> and \<open>stats.aiMessages\<close> are the numbers of messages
  of type \<open>user\<close> and \<open>ai\<close>, the two add up to \<open>stats.totalMessages\<close>, and
  \<open>stats.voiceMessages\<close> is the number of messages of content type \<open>voice\<close>.
\<close>

theorem stats_follow_messages:
  assumes "c' \<in> set (tl (appendTrace c steps))"
  shows "totalMessages (c_stats c') = length (c_messages c') \<and>
         userMessages (c_stats c') = length (filter (\<lambda>m. m_type m = User) (c_messages c')) \<and>
         aiMessages (c_stats c') = length (filter (\<lambda>m. m_type m = Ai) (c_messages c')) \<and>
         userMessages (c_stats c') + aiMessages (c_stats c') = totalMessages (c_stats c') \<and>
         voiceMessages (c_stats c') =
           length (filter (\<lambda>m. m_contentType m = Voice) (c_messages c'))"
proof -
  from assms obtain c0 md t1 t2 where c': "c' = addMessage c0 md t1 t2"
    using appendTrace_later by blast
  have "userMessages (c_stats c') + aiMessages (c_stats c') = totalMessages (c_stats c')"
    unfolding c' addMessage_stats
    using type_partition [of "c_messages c0 @ [castMessage md t1]"] by simp
  then show ?thesis
    unfolding c' by (simp add: addMessage_stats addMessage_messages)
qed

text \<open>
  The scenario: after \<open>Hello\<close> and \<open>Hi!\<close> the statistics are 2 in total, 1 of the user,
  1 of the assistant, 0 by voice.
\<close>

theorem stats_follow_messages_witness:
  "alice_after_hi \<in> set (tl (appendTrace alice_conversation alice_steps)) \<and>
   totalMessages (c_stats alice_after_hi) = 2 \<and>
   userMessages (c_stats alice_after_hi) = 1 \<and>
   aiMessages (c_stats alice_after_hi) = 1 \<and>
   userMessages (c_stats alice_after_hi) + aiMessages (c_stats alice_after_hi) =
     totalMessages (c_stats alice_after_hi) \<and>
   voiceMessages (c_stats alice_after_hi) = 0"
proof -
  have mem: "alice_after_hi \<in> set (tl (appendTrace alice_conversation alice_steps))"
    by (simp add: alice_trace)
  from stats_follow_messages [OF mem] mem show ?thesis
    by (simp add: alice_after_hi_messages cast_hello cast_hi)
qed

text \<open>
  C2, as the code has it. After every append, \<open>messages\<close> is not empty and
  \<open>lastMessageAt\<close> is the timestamp of its last element. A conversation without messages,
  in a sequence of appends to a new conversation, has the \<open>createdAt\<close> and the
  \<open>lastMessageAt\<close> that their defaults read from the clock at construction, so its
  \<open>lastMessageAt\<close> is its creation time exactly when the two readings are the same. Across
  a sequence of appends \<open>lastMessageAt\<close> never decreases exactly when the timestamps of
  the appended messages, from the current \<open>lastMessageAt\<close> on, do not decrease.
\<close>

theorem lastMessageAt_follows_last_message:
  "(c' \<in> set (tl (appendTrace c steps)) \<longrightarrow>
      c_messages c' \<noteq> [] \<and> c_lastMessageAt c' = m_timestamp (last (c_messages c'))) \<and>
   (c' \<in> set (appendTrace (newConversation uid title_opt model_opt now_created now_last) steps) \<and>
      c_messages c' = [] \<longrightarrow>
      c_createdAt c' = now_created \<and> c_lastMessageAt c' = now_last \<and>
      (c_lastMessageAt c' = c_createdAt c') = (now_last = now_created)) \<and>
   (sorted (map c_lastMessageAt (appendTrace c steps)) =
      sorted (c_lastMessageAt c # map stampOf steps))"
proof -
  have after_append:
    "c_messages c' \<noteq> [] \<and> c_lastMessageAt c' = m_timestamp (last (c_messages c'))"
    if "c' \<in> set (tl (appendTrace c steps))"
  proof -
    from that obtain c0 md t1 t2 where "c' = addMessage c0 md t1 t2"
      using appendTrace_later by blast
    then show ?thesis
      by (simp add: addMessage_messages addMessage_lastMessageAt)
  qed
  let ?n = "newConversation uid title_opt model_opt now_created now_last"
  have when_empty: "c_createdAt c' = now_created \<and> c_lastMessageAt c' = now_last \<and>
      (c_lastMessageAt c' = c_createdAt c') = (now_last = now_created)"
    if a: "c' \<in> set (appendTrace ?n steps) \<and> c_messages c' = []"
  proof -
    have "c' \<notin> set (tl (appendTrace ?n steps))"
    proof
      assume "c' \<in> set (tl (appendTrace ?n steps))"
      then obtain c0 md t1 t2 where "c' = addMessage c0 md t1 t2"
        using appendTrace_later by blast
      with a show False by (simp add: addMessage_messages)
    qed
    with a have "c' = ?n"
      using appendTrace_head [of ?n steps] by (metis set_ConsD)
    then show ?thesis by (simp add: newConversation_def)
  qed
  have monotone: "sorted (map c_lastMessageAt (appendTrace c steps)) =
      sorted (c_lastMessageAt c # map stampOf steps)"
    by (simp only: appendTrace_lastMessageAt)
  from after_append when_empty monotone show ?thesis by blast
qed

theorem lastMessageAt_follows_last_message_witness:
  "alice_after_hi \<in> set (tl (appendTrace alice_conversation alice_steps)) \<and>
   c_messages alice_after_hi \<noteq> [] \<and>
   c_lastMessageAt alice_after_hi = 12000 \<and>
   m_timestamp (last (c_messages alice_after_hi)) = 12000 \<and>
   alice_conversation \<in>
     set (appendTrace (newConversation (js_lit ''alice'') None None 1000 1000) alice_steps) \<and>
   c_messages alice_conversation = [] \<and>
   c_lastMessageAt alice_conversation = 1000 \<and>
   c_createdAt alice_conversation = 1000 \<and>
   late_default_conversation \<in>
     set (appendTrace (newConversation (js_lit ''alice'') None None 1000 1001) alice_steps) \<and>
   c_messages late_default_conversation = [] \<and>
   c_createdAt late_default_conversation = 1000 \<and>
   c_lastMessageAt late_default_conversation = 1001 \<and>
   sorted (c_lastMessageAt alice_conversation # map stampOf alice_steps) \<and>
   map c_lastMessageAt (appendTrace alice_conversation alice_steps) = [1000, 2000, 12000] \<and>
   sorted (map c_lastMessageAt (appendTrace alice_conversation alice_steps))"
proof -
  have mem: "alice_after_hi \<in> set (tl (appendTrace alice_conversation alice_steps))"
    by (simp add: alice_trace)
  have same: "newConversation (js_lit ''alice'') None None 1000 1000 = alice_conversation"
    by (simp add: alice_conversation_def)
  have start: "alice_conversation \<in>
      set (appendTrace (newConversation (js_lit ''alice'') None None 1000 1000) alice_steps)"
    by (simp add: same alice_trace)
  have late: "newConversation (js_lit ''alice'') None None 1000 1001 = late_default_conversation"
    by (simp add: late_default_conversation_def)
  have late_start: "late_default_conversation \<in>
      set (appendTrace (newConversation (js_lit ''alice'') None None 1000 1001) alice_steps)"
    using appendTrace_head [of late_default_conversation alice_steps]
    by (simp only: late) (metis list.set_intros(1))
  have late_empty: "c_messages late_default_conversation = []"
    by (simp add: late_default_conversation_def newConversation_def)
  have at_start: "c_lastMessageAt alice_conversation = 1000"
    by (simp add: alice_conversation_def newConversation_def)
  have stamps: "map stampOf alice_steps = [2000, 12000]"
    by (simp add: alice_steps_def cast_hello cast_hi)
  have ordered: "sorted (c_lastMessageAt alice_conversation # map stampOf alice_steps)"
    by (simp add: at_start stamps)
  have last_stamp: "m_timestamp (last (c_messages alice_after_hi)) = 12000"
    by (simp add: alice_after_hi_messages cast_hi)
  from lastMessageAt_follows_last_message
         [of alice_after_hi alice_conversation alice_steps "js_lit ''alice''" None None 1000 1000]
       lastMessageAt_follows_last_message
         [of alice_conversation alice_conversation alice_steps "js_lit ''alice''" None None
             1000 1000]
       lastMessageAt_follows_last_message
         [of late_default_conversation alice_conversation alice_steps "js_lit ''alice''" None None
             1000 1001]
       mem start late_start late_empty ordered last_stamp
  show ?thesis
    by (simp add: alice_conversation_messages appendTrace_lastMessageAt at_start stamps)
qed

text \<open>
  C2 as stated fails twice. A new conversation whose defaults were read at 1000 and at
  1001 has no message and a \<open>lastMessageAt\<close> that is not its creation time. And a message
  whose data carry a timestamp earlier than the previous message's is appended and saved
  too: \<open>lastMessageAt\<close> goes back from 5000 to 4000.
\<close>

theorem lastMessageAt_regresses:
  "c_messages late_default_conversation = [] \<and>
   c_createdAt late_default_conversation = 1000 \<and>
   c_lastMessageAt late_default_conversation = 1001 \<and>
   c_lastMessageAt late_default_conversation \<noteq> c_createdAt late_default_conversation \<and>
   c_lastMessageAt alice_after_5000 = 5000 \<and>
   c_lastMessageAt (addMessage alice_after_5000 dated_4000 7000 7001) = 4000 \<and>
   c_lastMessageAt (addMessage alice_after_5000 dated_4000 7000 7001) <
     c_lastMessageAt alice_after_5000"
  by (simp add: alice_after_5000_def addMessage_lastMessageAt castMessage_def
      dated_5000_def dated_4000_def late_default_conversation_def newConversation_def)

section \<open>Conversation: context window, title, duration, status\<close>

lemma js_slice_last:
  "0 < limit \<Longrightarrow> js_slice xs (- limit) = drop (length xs - nat limit) xs"
  by (auto simp: js_slice_def Let_def max_def nat_diff_distrib')

text \<open>
  With a limit of at least 1 the context window is the last \<open>min limit (length messages)\<close>
  messages in their order, and an absent limit is 10.
\<close>

lemma getContextMessages_positive:
  assumes "0 < limit"
  shows "getContextMessages c (Some limit) =
           drop (length (c_messages c) - nat limit) (c_messages c) \<and>
         length (getContextMessages c (Some limit)) = min (nat limit) (length (c_messages c))"
  using assms by (auto simp: getContextMessages_def js_slice_last)

lemma getContextMessages_default:
  "getContextMessages c None = getContextMessages c (Some 10)"
  by (simp add: getContextMessages_def)

text \<open>
  C3 at the limit 0. The claim gives \<open>min 0 (length messages) = 0\<close> messages; on the
  scenario's conversation of two messages the method returns both.
\<close>

theorem getContextMessages_zero_on_scenario:
  "length (c_messages alice_after_hi) = 2 \<and>
   getContextMessages alice_after_hi (Some 0) = [castMessage hello 2000, castMessage hi 12000] \<and>
   length (getContextMessages alice_after_hi (Some 0)) = 2 \<and>
   length (getContextMessages alice_after_hi (Some 0)) \<noteq>
     min 0 (length (c_messages alice_after_hi))"
  by (simp add: getContextMessages_def js_slice_def alice_after_hi_messages)

text \<open>
  C10. With the limit 0, \<open>getContextMessages\<close> returns the whole \<open>messages\<close> sequence:
  \<open>slice(-0)\<close> is \<open>slice(0)\<close>.
\<close>

theorem getContextMessages_zero_returns_all:
  "getContextMessages c (Some 0) = c_messages c"
  by (simp add: getContextMessages_def js_slice_def)

lemma find_first_user:
  assumes "ms = before @ m # rest" and "\<forall>p\<in>set before. m_type p \<noteq> User"
    and "m_type m = User"
  shows "find (\<lambda>m. m_type m = User) ms = Some m"
  using assms by (induction before arbitrary: ms) auto

lemma find_no_user:
  assumes "\<forall>m\<in>set ms. m_type m \<noteq> User"
  shows "find (\<lambda>m. m_type m = User) ms = None"
  using assms by (simp add: find_None_iff)

lemma length_ellipsis: "length (js_lit ''...'') = 3"
  by (simp add: js_lit_def)

text \<open>
  C5. Without a user message \<open>generateTitle\<close> returns \<open>'New Conversation'\<close>. Otherwise let
  \<open>m\<close> be the first message of type \<open>user\<close>: the result is its content when that has at
  most 50 code units, and the first 50 followed by \<open>'...'\<close> when it has more; a content of
  80 gives a result of 53 that keeps the first 50 and ends in \<open>'...'\<close>.
\<close>

theorem generateTitle_spec:
  "((\<forall>m\<in>set (c_messages c). m_type m \<noteq> User) \<longrightarrow>
      generateTitle c = js_lit ''New Conversation'') \<and>
   (c_messages c = before @ m # rest \<and> (\<forall>p\<in>set before. m_type p \<noteq> User) \<and>
      m_type m = User \<longrightarrow>
      (length (m_content m) \<le> 50 \<longrightarrow> generateTitle c = m_content m) \<and>
      (50 < length (m_content m) \<longrightarrow>
         generateTitle c = take 50 (m_content m) @ js_lit ''...'') \<and>
      (length (m_content m) = 80 \<longrightarrow>
         length (generateTitle c) = 53 \<and>
         take 50 (generateTitle c) = take 50 (m_content m) \<and>
         drop 50 (generateTitle c) = js_lit ''...''))"
proof -
  have none: "generateTitle c = js_lit ''New Conversation''"
    if "\<forall>m\<in>set (c_messages c). m_type m \<noteq> User"
    using find_no_user [OF that] by (simp add: generateTitle_def)
  have some: "generateTitle c =
      (if 50 < length (m_content m) then take 50 (m_content m) @ js_lit ''...''
       else m_content m)"
    if "c_messages c = before @ m # rest \<and> (\<forall>p\<in>set before. m_type p \<noteq> User) \<and>
        m_type m = User"
  proof -
    from that have "find (\<lambda>m. m_type m = User) (c_messages c) = Some m"
      using find_first_user by blast
    then show ?thesis by (simp add: generateTitle_def Let_def)
  qed
  show ?thesis
  proof (intro conjI impI)
    assume "\<forall>m\<in>set (c_messages c). m_type m \<noteq> User"
    then show "generateTitle c = js_lit ''New Conversation''" by (rule none)
  next
    assume "c_messages c = before @ m # rest \<and> (\<forall>p\<in>set before. m_type p \<noteq> User) \<and>
        m_type m = User"
      and "length (m_content m) \<le> 50"
    then show "generateTitle c = m_content m" using some by simp
  next
    assume "c_messages c = before @ m # rest \<and> (\<forall>p\<in>set before. m_type p \<noteq> User) \<and>
        m_type m = User"
      and "50 < length (m_content m)"
    then show "generateTitle c = take 50 (m_content m) @ js_lit ''...''" using some by simp
  next
    assume "c_messages c = before @ m # rest \<and> (\<forall>p\<in>set before. m_type p \<noteq> User) \<and>
        m_type m = User"
      and l: "length (m_content m) = 80"
    then have g: "generateTitle c = take 50 (m_content m) @ js_lit ''...''"
      using some by simp
    show "length (generateTitle c) = 53" by (simp add: g l length_ellipsis)
    show "take 50 (generateTitle c) = take 50 (m_content m)" by (simp add: g l)
    show "drop 50 (generateTitle c) = js_lit ''...''" by (simp add: g l)
  qed
qed

text \<open>
  A conversation with a reply only; the scenario, whose first user message is \<open>Hello\<close>;
  and a reply followed by a user message of 80 code units.
\<close>

theorem generateTitle_spec_witness:
  "c_messages reply_only = [castMessage hi 2000] \<and>
   m_type (castMessage hi 2000) = Ai \<and>
   generateTitle reply_only = js_lit ''New Conversation'' \<and>
   c_messages alice_after_hi = [] @ castMessage hello 2000 # [castMessage hi 12000] \<and>
   m_type (castMessage hello 2000) = User \<and>
   length (m_content (castMessage hello 2000)) = 5 \<and>
   generateTitle alice_after_hi = js_lit ''Hello'' \<and>
   c_messages long_conversation = [castMessage hi 2000] @ castMessage long_question 3000 # [] \<and>
   m_type (castMessage long_question 3000) = User \<and>
   length (m_content (castMessage long_question 3000)) = 80 \<and>
   generateTitle long_conversation = replicate 50 0x61 @ js_lit ''...'' \<and>
   length (generateTitle long_conversation) = 53 \<and>
   take 50 (generateTitle long_conversation) = replicate 50 0x61 \<and>
   drop 50 (generateTitle long_conversation) = js_lit ''...''"
proof -
  have no_user: "\<forall>m\<in>set (c_messages reply_only). m_type m \<noteq> User"
    by (simp add: reply_only_messages cast_hi)
  have short_split:
    "c_messages alice_after_hi = [] @ castMessage hello 2000 # [castMessage hi 12000] \<and>
     (\<forall>p\<in>set []. m_type p \<noteq> User) \<and> m_type (castMessage hello 2000) = User"
    by (simp add: alice_after_hi_messages cast_hello)
  have short_len: "length (m_content (castMessage hello 2000)) = 5"
    by (simp add: cast_hello js_lit_def)
  have long_split:
    "c_messages long_conversation =
       [castMessage hi 2000] @ castMessage long_question 3000 # [] \<and>
     (\<forall>p\<in>set [castMessage hi 2000]. m_type p \<noteq> User) \<and>
     m_type (castMessage long_question 3000) = User"
    by (simp add: long_conversation_messages cast_hi cast_long_question)
  have long_len: "length (m_content (castMessage long_question 3000)) = 80"
    by (simp add: cast_long_question)
  from generateTitle_spec [of reply_only] no_user
  have t1: "generateTitle reply_only = js_lit ''New Conversation''" by blast
  from generateTitle_spec
         [of alice_after_hi "[]" "castMessage hello 2000" "[castMessage hi 12000]"]
       short_split short_len
  have t2: "generateTitle alice_after_hi = js_lit ''Hello''"
    by (simp add: cast_hello)
  from generateTitle_spec
         [of long_conversation "[castMessage hi 2000]" "castMessage long_question 3000" "[]"]
       long_split long_len
  have t3: "generateTitle long_conversation =
        take 50 (m_content (castMessage long_question 3000)) @ js_lit ''...'' \<and>
      length (generateTitle long_conversation) = 53 \<and>
      take 50 (generateTitle long_conversation) =
        take 50 (m_content (castMessage long_question 3000)) \<and>
      drop 50 (generateTitle long_conversation) = js_lit ''...''"
    by (simp add: length_ellipsis)
  have first50: "take 50 (m_content (castMessage long_question 3000)) = replicate 50 0x61"
    by (simp add: cast_long_question)
  from t1 t2 t3 short_split short_len long_split long_len show ?thesis
    by (simp add: first50 reply_only_messages cast_hi length_ellipsis)
qed

text \<open>
  C6. \<open>calculateDuration\<close> returns 0 for fewer than two messages; otherwise the time from
  the first message's timestamp to the last one's, in seconds (the milliseconds between
  them divided by 1000); two messages 10 seconds apart give 10.
\<close>

theorem calculateDuration_spec:
  "(length (c_messages c) < 2 \<longrightarrow> calculateDuration c = 0) \<and>
   (2 \<le> length (c_messages c) \<longrightarrow>
      calculateDuration c =
        of_int (m_timestamp (last (c_messages c)) - m_timestamp (hd (c_messages c))) / 1000) \<and>
   (c_messages c = [m1, m2] \<and> m_timestamp m2 = m_timestamp m1 + 10 * 1000 \<longrightarrow>
      calculateDuration c = 10)"
proof -
  have nth_ends: "c_messages c ! 0 = hd (c_messages c) \<and>
      c_messages c ! (length (c_messages c) - 1) = last (c_messages c)"
    if "2 \<le> length (c_messages c)"
  proof -
    from that have "c_messages c \<noteq> []" by auto
    then show ?thesis by (simp add: hd_conv_nth last_conv_nth)
  qed
  have short: "calculateDuration c = 0" if "length (c_messages c) < 2"
    using that by (simp add: calculateDuration_def)
  have long: "calculateDuration c =
      of_int (m_timestamp (last (c_messages c)) - m_timestamp (hd (c_messages c))) / 1000"
    if "2 \<le> length (c_messages c)"
    using that nth_ends by (simp add: calculateDuration_def Let_def)
  have ten: "calculateDuration c = 10"
    if "c_messages c = [m1, m2] \<and> m_timestamp m2 = m_timestamp m1 + 10 * 1000"
    using that by (simp add: calculateDuration_def Let_def)
  from short long ten show ?thesis by blast
qed

text \<open>
  No message, one message, and the scenario's two messages at 2000 and 12000
  milliseconds.
\<close>

theorem calculateDuration_spec_witness:
  "length (c_messages alice_conversation) < 2 \<and>
   calculateDuration alice_conversation = 0 \<and>
   length (c_messages alice_after_hello) < 2 \<and>
   calculateDuration alice_after_hello = 0 \<and>
   2 \<le> length (c_messages alice_after_hi) \<and>
   c_messages alice_after_hi = [castMessage hello 2000, castMessage hi 12000] \<and>
   m_timestamp (castMessage hi 12000) = m_timestamp (castMessage hello 2000) + 10 * 1000 \<and>
   calculateDuration alice_after_hi = of_int (12000 - 2000) / 1000 \<and>
   calculateDuration alice_after_hi = 10"
proof -
  have none: "length (c_messages alice_conversation) < 2"
    by (simp add: alice_conversation_messages)
  have one: "length (c_messages alice_after_hello) < 2"
    by (simp add: alice_after_hello_messages)
  have two: "2 \<le> length (c_messages alice_after_hi)"
    by (simp add: alice_after_hi_messages)
  have apart: "c_messages alice_after_hi = [castMessage hello 2000, castMessage hi 12000] \<and>
      m_timestamp (castMessage hi 12000) = m_timestamp (castMessage hello 2000) + 10 * 1000"
    by (simp add: alice_after_hi_messages cast_hello cast_hi)
  from calculateDuration_spec [of alice_conversation] none
  have d0: "calculateDuration alice_conversation = 0" by blast
  from calculateDuration_spec [of alice_after_hello] one
  have d1: "calculateDuration alice_after_hello = 0" by blast
  from calculateDuration_spec
         [of alice_after_hi "castMessage hello 2000" "castMessage hi 12000"] two apart
  have d2: "calculateDuration alice_after_hi =
        of_int (m_timestamp (last (c_messages alice_after_hi)) -
                m_timestamp (hd (c_messages alice_after_hi))) / 1000 \<and>
      calculateDuration alice_after_hi = 10"
    by blast
  from none one two apart d0 d1 d2 show ?thesis by simp
qed

text \<open>
  C8. Whatever the status was, \<open>archive\<close> leaves \<open>archived\<close>, \<open>delete\<close> leaves \<open>deleted\<close>
  and \<open>restore\<close> leaves \<open>active\<close>; so archiving and then restoring gives \<open>active\<close>, and
  restoring an archived or a deleted conversation gives \<open>active\<close>.
\<close>

theorem status_transitions:
  "c_status (archive c) = Archived \<and>
   c_status (delete c) = Deleted \<and>
   c_status (restore c) = Active \<and>
   c_status (restore (archive c)) = Active \<and>
   c_status (restore (delete c)) = Active \<and>
   c_status (restore (c\<lparr> c_status := Archived \<rparr>)) = Active \<and>
   c_status (restore (c\<lparr> c_status := Deleted \<rparr>)) = Active"
  by (simp add: archive_def delete_def restore_def save_def pre_save_def Let_def)

section \<open>User: credentials and counters\<close>

text \<open>
  C7. \<open>findByCredentials\<close> throws for an email no user has (as the query casts it), and
  throws for the email of a user whose stored password the candidate does not match;
  both times it is an \<open>Error\<close> with the message \<open>'Invalid login credentials'\<close>, so the two
  results are equal.
\<close>

theorem findByCredentials_same_error:
  "(castEmail toLowerCase email \<notin> u_email ` set users \<longrightarrow>
      findByCredentials compare toLowerCase users email password =
        Inl (Error (js_lit ''Invalid login credentials''))) \<and>
   (findOne toLowerCase users email' = Some u \<and> \<not> compare password' (u_password u) \<longrightarrow>
      u \<in> set users \<and> u_email u = castEmail toLowerCase email' \<and>
      findByCredentials compare toLowerCase users email' password' =
        Inl (Error (js_lit ''Invalid login credentials''))) \<and>
   (castEmail toLowerCase email \<notin> u_email ` set users \<and>
      findOne toLowerCase users email' = Some u \<and> \<not> compare password' (u_password u) \<longrightarrow>
      findByCredentials compare toLowerCase users email password =
        findByCredentials compare toLowerCase users email' password')"
proof -
  have absent: "findByCredentials compare toLowerCase users email password =
      Inl (Error (js_lit ''Invalid login credentials''))"
    if "castEmail toLowerCase email \<notin> u_email ` set users"
  proof -
    from that have "findOne toLowerCase users email = None"
      by (force simp: findOne_def find_None_iff image_iff)
    then show ?thesis by (simp add: findByCredentials_def)
  qed
  have mismatch: "u \<in> set users \<and> u_email u = castEmail toLowerCase email' \<and>
      findByCredentials compare toLowerCase users email' password' =
        Inl (Error (js_lit ''Invalid login credentials''))"
    if "findOne toLowerCase users email' = Some u \<and> \<not> compare password' (u_password u)"
  proof -
    from that have "u \<in> set users \<and> u_email u = castEmail toLowerCase email'"
      by (auto simp: findOne_def find_Some_iff)
    with that show ?thesis
      by (simp add: findByCredentials_def comparePassword_def)
  qed
  from absent mismatch show ?thesis by simp
qed

lemma cast_mixed_case:
  "castEmail ascii_lower (js_lit '' ALICE@Example.com '') = js_lit ''alice@example.com''"
  by (simp add: castEmail_def ascii_lower_def trim_def js_whitespace_def js_lit_def)

text \<open>
  The right password returns the user, also when the email is written with capitals and
  blanks around it: the method does not fail on every input.
\<close>

lemma findByCredentials_alice:
  "findByCredentials stub_compare ascii_lower [alice] (js_lit '' ALICE@Example.com '')
     (js_lit ''secret1'') = Inr alice"
  by (simp add: findByCredentials_def findOne_def comparePassword_def stub_compare_def
      cast_mixed_case) (simp add: alice_def)

theorem findByCredentials_same_error_witness:
  "castEmail ascii_lower (js_lit ''bob@example.com'') \<notin> u_email ` set [alice] \<and>
   findOne ascii_lower [alice] (js_lit '' ALICE@Example.com '') = Some alice \<and>
   \<not> stub_compare (js_lit ''wrong'') (u_password alice) \<and>
   findByCredentials stub_compare ascii_lower [alice] (js_lit ''bob@example.com'')
     (js_lit ''secret1'') = Inl (Error (js_lit ''Invalid login credentials'')) \<and>
   findByCredentials stub_compare ascii_lower [alice] (js_lit '' ALICE@Example.com '')
     (js_lit ''wrong'') = Inl (Error (js_lit ''Invalid login credentials'')) \<and>
   findByCredentials stub_compare ascii_lower [alice] (js_lit ''bob@example.com'')
     (js_lit ''secret1'') =
     findByCredentials stub_compare ascii_lower [alice] (js_lit '' ALICE@Example.com '')
       (js_lit ''wrong'')"
proof -
  have absent: "castEmail ascii_lower (js_lit ''bob@example.com'') \<notin> u_email ` set [alice]"
    by (simp add: castEmail_def ascii_lower_def trim_def js_whitespace_def alice_def js_lit_def)
  have found: "findOne ascii_lower [alice] (js_lit '' ALICE@Example.com '') = Some alice"
    by (simp add: findOne_def cast_mixed_case) (simp add: alice_def)
  have wrong: "\<not> stub_compare (js_lit ''wrong'') (u_password alice)"
    by (simp add: stub_compare_def stub_hash_def alice_def js_lit_def)
  from findByCredentials_same_error
         [of ascii_lower "js_lit ''bob@example.com''" "[alice]" stub_compare "js_lit ''secret1''"
             "js_lit '' ALICE@Example.com ''" alice "js_lit ''wrong''"]
       absent found wrong
  show ?thesis by simp
qed

lemma markModified_stats: "u_stats (markModified path changed u) = u_stats u"
  by (simp add: markModified_def)

lemma save_user_stats: "u_stats (save_user hash u now) = u_stats u"
  by (simp add: save_user_def pre_save_user_def Let_def)



text \<open>
  C4, as the code has it. \<open>updateStats\<close> with a delta that is not negative (an absent
  delta is 1) decreases none of the four counters, whatever the kind; \<open>updateLastActive\<close>
  and a save leave the counters as they are.
\<close>

theorem user_counters_with_nonnegative_delta:
  "(0 \<le> (case increment_opt of None \<Rightarrow> 1 | Some d \<Rightarrow> d) \<longrightarrow>
      conversations (u_stats u) \<le>
        conversations (u_stats (updateStats hash u kind increment_opt now)) \<and>
      messages (u_stats u) \<le> messages (u_stats (updateStats hash u kind increment_opt now)) \<and>
      voiceInteractions (u_stats u) \<le>
        voiceInteractions (u_stats (updateStats hash u kind increment_opt now)) \<and>
      totalUsageTime (u_stats u) \<le>
        totalUsageTime (u_stats (updateStats hash u kind increment_opt now))) \<and>
   u_stats (updateLastActive hash u now now_save) = u_stats u \<and>
   u_stats (save_user hash u now) = u_stats u"
  by (simp add: updateStats_def updateLastActive_def save_user_stats markModified_stats Let_def)

theorem user_counters_with_nonnegative_delta_witness:
  "(0::int) \<le> (case Some 2 of None \<Rightarrow> 1 | Some d \<Rightarrow> d) \<and>
   conversations (u_stats alice) \<le>
     conversations (u_stats (updateStats stub_hash alice (js_lit ''message'') (Some 2) 5000)) \<and>
   messages (u_stats alice) \<le>
     messages (u_stats (updateStats stub_hash alice (js_lit ''message'') (Some 2) 5000)) \<and>
   messages (u_stats (updateStats stub_hash alice (js_lit ''message'') (Some 2) 5000)) = 2 \<and>
   voiceInteractions (u_stats alice) \<le>
     voiceInteractions
       (u_stats (updateStats stub_hash alice (js_lit ''message'') (Some 2) 5000)) \<and>
   totalUsageTime (u_stats alice) \<le>
     totalUsageTime (u_stats (updateStats stub_hash alice (js_lit ''message'') (Some 2) 5000)) \<and>
   u_stats (updateLastActive stub_hash alice 5000 5001) = u_stats alice"
proof -
  have two:
    "messages (u_stats (updateStats stub_hash alice (js_lit ''message'') (Some 2) 5000)) = 2"
    by (simp add: updateStats_def Let_def save_user_stats markModified_stats alice_def
        js_lit_def)
  from user_counters_with_nonnegative_delta
         [of "Some 2" alice stub_hash "js_lit ''message''" 5000 5001]
       user_counters_with_nonnegative_delta
         [of "Some 2" alice stub_hash "js_lit ''message''" 5000 5000] two
  show ?thesis by simp
qed

text \<open>
  C4 as stated fails: \<open>updateStats('message', -1)\<close> takes the counter of messages from 0
  to -1.
\<close>

theorem negative_delta_decreases_counter:
  "messages (u_stats alice) = 0 \<and>
   messages (u_stats (updateStats stub_hash alice (js_lit ''message'') (Some (- 1)) 5000)) = - 1 \<and>
   messages (u_stats (updateStats stub_hash alice (js_lit ''message'') (Some (- 1)) 5000)) <
     messages (u_stats alice)"
  by (simp add: updateStats_def Let_def save_user_stats markModified_stats alice_def js_lit_def)




end
